theory Spec2Isabelle
  imports Main
begin

section \<open>JavaScript values the dashboard code relies on\<close>

text \<open>
  A JavaScript \<open>Date\<close> holds a time value in milliseconds since the epoch, or is the
  \<open>Invalid Date\<close>, whose time value is \<open>NaN\<close>. Numbers that the code computes from dates are
  integers or \<open>NaN\<close>. Both are modelled as \<open>int option\<close>, \<open>None\<close> standing for
  \<open>Invalid Date\<close> and for \<open>NaN\<close>. Time values are integers far below \<open>2^53\<close>, where the
  arithmetic of doubles that the code performs on them (differences, quotients by a
  constant that are then truncated or rounded) agrees with the arithmetic on integers.
\<close>

type_synonym date = "int option"

type_synonym number = "int option"

text \<open>The exceptions that the date library raises, as values.\<close>

datatype error = RangeError string

text \<open>
  A property read \<open>obj[key]\<close> on an object literal finds the object's own property
  first and then walks the prototype chain, which for an object literal is
  \<open>Object.prototype\<close>. The members of \<open>Object.prototype\<close> are functions, apart from
  \<open>__proto__\<close>, whose getter yields \<open>Object.prototype\<close> itself; every one of them is
  truthy and has no \<open>label\<close> or \<open>color\<close> property.
\<close>

definition object_prototype_keys :: "string list" where
  "object_prototype_keys =
     [''constructor'', ''__defineGetter__'', ''__defineSetter__'', ''hasOwnProperty'',
      ''__lookupGetter__'', ''__lookupSetter__'', ''isPrototypeOf'',
      ''propertyIsEnumerable'', ''toString'', ''valueOf'', ''__proto__'',
      ''toLocaleString'']"

text \<open>
  What a property read returns: a value the literal holds, or a member inherited from
  \<open>Object.prototype\<close>, kept by its name.
\<close>

datatype 'a js = Value 'a | ProtoMember string

text \<open>\<open>obj[key]\<close>; \<open>None\<close> is \<open>undefined\<close>.\<close>

definition get_property :: "(string \<times> 'a) list \<Rightarrow> string \<Rightarrow> 'a js option" where
  "get_property obj k =
     (case map_of obj k of
        Some v \<Rightarrow> Some (Value v)
      | None \<Rightarrow> if k \<in> set object_prototype_keys then Some (ProtoMember k) else None)"

text \<open>
  \<open>String.prototype.toLowerCase\<close> on the ASCII letters. Characters are bytes here, so
  the case mapping of letters outside ASCII is not modelled.
\<close>

definition toLowerCase_char :: "char \<Rightarrow> char" where
  "toLowerCase_char c =
     (let n = (of_char c :: nat) in if 65 \<le> n \<and> n \<le> 90 then char_of (n + 32) else c)"

definition toLowerCase :: "string \<Rightarrow> string" where
  "toLowerCase s = map toLowerCase_char s"

text \<open>
  \<open>String.prototype.includes\<close>: whether the needle occurs as a substring. The name
  carries a suffix, \<open>includes\<close> being a keyword.
\<close>

fun startsWith :: "string \<Rightarrow> string \<Rightarrow> bool" where
  "startsWith s [] = True"
| "startsWith [] (n # ns) = False"
| "startsWith (c # cs) (n # ns) = (c = n \<and> startsWith cs ns)"

fun includes_str :: "string \<Rightarrow> string \<Rightarrow> bool" where
  "includes_str [] n = startsWith [] n"
| "includes_str (c # cs) n = (startsWith (c # cs) n \<or> includes_str cs n)"

text \<open>\<open>Number.prototype.toString\<close> of an integer, in decimal.\<close>

definition digit_char :: "nat \<Rightarrow> char" where
  "digit_char d = char_of (48 + d)"

function digits_of :: "nat \<Rightarrow> string" where
  "digits_of n = (if n < 10 then [digit_char n] else digits_of (n div 10) @ [digit_char (n mod 10)])"
  by pat_completeness auto
termination
  by (relation "measure id") auto

declare digits_of.simps [simp del]

definition toString :: "int \<Rightarrow> string" where
  "toString i = (if i < 0 then CHR ''-'' # digits_of (nat (- i)) else digits_of (nat i))"

section \<open>The date library (date-fns), as the dashboard calls it\<close>

text \<open>
  The dashboard imports \<open>parseISO\<close>, \<open>differenceInMinutes\<close>, \<open>isPast\<close> and
  \<open>formatDistanceToNow\<close> from the date-fns package, which is a dependency and not part of
  the repository. What depends on the environment the code runs in is a parameter of the
  model, gathered in one record:
  \<^item> \<open>parseISO\<close>, the parser of ISO 8601 strings; it returns \<open>Invalid Date\<close> for a string
    it cannot parse and raises nothing on a string;
  \<^item> \<open>getTimezoneOffsetInMilliseconds\<close>, the offset of the local time zone at an instant;
  \<^item> \<open>differenceInMonths\<close>, the number of full calendar months between two instants in
    the local time zone.
  The rest is the library's arithmetic on time values.
\<close>

record datefns =
  parseISO :: "string \<Rightarrow> date"
  getTimezoneOffsetInMilliseconds :: "int \<Rightarrow> int"
  differenceInMonths :: "int \<Rightarrow> int \<Rightarrow> int"

text \<open>\<open>Math.trunc (a / b)\<close> for a positive \<open>b\<close>: the quotient rounded towards zero.\<close>

definition trunc_div :: "int \<Rightarrow> int \<Rightarrow> int" where
  "trunc_div a b = (if 0 \<le> a then a div b else - ((- a) div b))"

text \<open>\<open>Math.round (a / b)\<close> for a positive \<open>b\<close>: the nearest integer, a half rounded up.\<close>

definition round_div :: "int \<Rightarrow> int \<Rightarrow> int" where
  "round_div a b = (2 * a + b) div (2 * b)"

definition differenceInMilliseconds :: "date \<Rightarrow> date \<Rightarrow> number" where
  "differenceInMilliseconds dateLeft dateRight =
     (case (dateLeft, dateRight) of (Some l, Some r) \<Rightarrow> Some (l - r) | _ \<Rightarrow> None)"

definition differenceInMinutes :: "date \<Rightarrow> date \<Rightarrow> number" where
  "differenceInMinutes dateLeft dateRight =
     map_option (\<lambda>diff. trunc_div diff 60000) (differenceInMilliseconds dateLeft dateRight)"

text \<open>\<open>a < b\<close> on numbers: false when an operand is \<open>NaN\<close>.\<close>

definition js_less :: "number \<Rightarrow> number \<Rightarrow> bool" where
  "js_less a b = (case (a, b) of (Some x, Some y) \<Rightarrow> x < y | _ \<Rightarrow> False)"

text \<open>\<open>isPast (date)\<close> is \<open>date.getTime() < Date.now()\<close>; \<open>now\<close> is what the clock reads.\<close>

definition isPast :: "int \<Rightarrow> date \<Rightarrow> bool" where
  "isPast now d = js_less d (Some now)"

section \<open>Crawl sessions\<close>

text \<open>
  \<open>CrawlSession\<close> of the types module. The \<open>status\<close> is declared as one of five string
  literals; at run time it is the string of the backend's payload, and the code has a
  branch for a string outside the five, so it is a string here. The field \<open>id\<close> is
  \<open>session_id\<close>.
\<close>

record CrawlSession =
  session_id :: string
  source_id :: string
  status :: string
  started_at :: "string option"
  completed_at :: "string option"
  opportunities_found :: int
  opportunities_new :: int
  opportunities_updated :: int
  pages_crawled :: int
  errors_count :: int
  last_error_message :: "string option"
  created_at :: string

text \<open>
  \<open>isSessionActive\<close>. The function has one parameter, the session, and reads the system
  clock itself with \<open>new Date()\<close> on the pending path; \<open>now\<close> is what that read returns.
  \<open>parseISO\<close> raises nothing on a string and \<open>differenceInMinutes\<close> raises nothing on
  dates, so the \<open>catch\<close> branch is not reached from a session whose \<open>created_at\<close> is a
  string: an unparseable \<open>created_at\<close> gives \<open>NaN\<close> minutes, and \<open>NaN < 2\<close> is false.
\<close>

definition isSessionActive :: "datefns \<Rightarrow> int \<Rightarrow> CrawlSession option \<Rightarrow> bool" where
  "isSessionActive L now session =
     (case session of
        None \<Rightarrow> False
      | Some s \<Rightarrow>
          if status s = ''running'' then True
          else if status s = ''pending'' then
            (let createdAt = parseISO L (created_at s);
                 minutesAgo = differenceInMinutes (Some now) createdAt
             in js_less minutesAgo (Some 2))
          else False)"

record badge =
  color :: string
  label :: string

definition ready_badge :: badge where
  "ready_badge =
     \<lparr>color = ''bg-green-100 text-green-700 dark:bg-green-900/30 dark:text-green-400'',
      label = ''Ready''\<rparr>"

definition config :: "(string \<times> badge) list" where
  "config =
     [(''completed'',
         \<lparr>color = ''bg-green-100 text-green-700 dark:bg-green-900/30 dark:text-green-400'',
          label = ''Completed''\<rparr>),
      (''running'',
         \<lparr>color = ''bg-blue-100 text-blue-700 dark:bg-blue-900/30 dark:text-blue-400'',
          label = ''Running''\<rparr>),
      (''pending'',
         \<lparr>color = ''bg-yellow-100 text-yellow-700 dark:bg-yellow-900/30 dark:text-yellow-400'',
          label = ''Pending''\<rparr>),
      (''failed'',
         \<lparr>color = ''bg-red-100 text-red-700 dark:bg-red-900/30 dark:text-red-400'',
          label = ''Failed''\<rparr>),
      (''cancelled'',
         \<lparr>color = ''bg-gray-100 text-gray-500 dark:bg-gray-700 dark:text-gray-400'',
          label = ''Cancelled''\<rparr>)]"

text \<open>
  \<open>getStatusBadge\<close> of the crawler status panel. \<open>config[session.status] || ready\<close>
  returns what the property read finds when that is truthy, so a member inherited from
  \<open>Object.prototype\<close> is returned as it is.
\<close>

definition getStatusBadge :: "datefns \<Rightarrow> int \<Rightarrow> CrawlSession option \<Rightarrow> badge js" where
  "getStatusBadge L now session =
     (case session of
        None \<Rightarrow> Value ready_badge
      | Some s \<Rightarrow>
          (let isActive = isSessionActive L now session in
           if status s = ''pending'' \<and> \<not> isActive then Value ready_badge
           else (case get_property config (status s) of
                   Some v \<Rightarrow> v
                 | None \<Rightarrow> Value ready_badge)))"

text \<open>\<open>status.label\<close> as the panel reads it; \<open>None\<close> is \<open>undefined\<close>.\<close>

definition label_of :: "badge js \<Rightarrow> string option" where
  "label_of b = (case b of Value v \<Rightarrow> Some (label v) | ProtoMember k \<Rightarrow> None)"

section \<open>Relative durations\<close>

text \<open>
  \<open>formatDistance\<close> of date-fns picks a unit and a count from the distance between two
  instants, and the locale (en-US, the default) turns them into words. The units it picks
  from are the ones below; it has no weeks. The seconds tokens are left out: they are
  used with the option \<open>includeSeconds\<close> only, which the dashboard never sets.
\<close>

datatype token =
  lessThanXMinutes | xMinutes | aboutXHours | xDays | aboutXMonths | xMonths
  | aboutXYears | overXYears | almostXYears

text \<open>
  The locale's table: the text for a count of one, and the text for any other count as
  what stands before and after the count.
\<close>

fun formatDistanceLocale :: "token \<Rightarrow> string \<times> string \<times> string" where
  "formatDistanceLocale lessThanXMinutes = (''less than a minute'', ''less than '', '' minutes'')"
| "formatDistanceLocale xMinutes = (''1 minute'', [], '' minutes'')"
| "formatDistanceLocale aboutXHours = (''about 1 hour'', ''about '', '' hours'')"
| "formatDistanceLocale xDays = (''1 day'', [], '' days'')"
| "formatDistanceLocale aboutXMonths = (''about 1 month'', ''about '', '' months'')"
| "formatDistanceLocale xMonths = (''1 month'', [], '' months'')"
| "formatDistanceLocale aboutXYears = (''about 1 year'', ''about '', '' years'')"
| "formatDistanceLocale overXYears = (''over 1 year'', ''over '', '' years'')"
| "formatDistanceLocale almostXYears = (''almost 1 year'', ''almost '', '' years'')"

definition token_text :: "token \<Rightarrow> int \<Rightarrow> string" where
  "token_text tok count =
     (case formatDistanceLocale tok of
        (one, before, after) \<Rightarrow> if count = 1 then one else before @ toString count @ after)"

definition locale_formatDistance :: "token \<Rightarrow> int \<Rightarrow> bool \<Rightarrow> int \<Rightarrow> string" where
  "locale_formatDistance tok count addSuffix comparison =
     (let result = token_text tok count in
      if addSuffix then (if 0 < comparison then ''in '' @ result else result @ '' ago'')
      else result)"

definition compareAsc :: "int \<Rightarrow> int \<Rightarrow> int" where
  "compareAsc dateLeft dateRight =
     (if dateLeft - dateRight < 0 then - 1 else if 0 < dateLeft - dateRight then 1 else 0)"

text \<open>
  The minutes between the two instants, the earlier one on the left: whole seconds
  (truncated), less the change of the zone offset, rounded to the minute.
\<close>

definition distance_minutes :: "datefns \<Rightarrow> int \<Rightarrow> int \<Rightarrow> int" where
  "distance_minutes L dateLeft dateRight =
     (let seconds = trunc_div (dateRight - dateLeft) 1000;
          offsetInMilliseconds =
            getTimezoneOffsetInMilliseconds L dateRight - getTimezoneOffsetInMilliseconds L dateLeft
      in round_div (1000 * seconds - offsetInMilliseconds) 60000)"

definition distance_token :: "datefns \<Rightarrow> int \<Rightarrow> int \<Rightarrow> token \<times> int" where
  "distance_token L dateLeft dateRight =
     (let minutes = distance_minutes L dateLeft dateRight in
      if minutes < 2 then (if minutes = 0 then (lessThanXMinutes, 1) else (xMinutes, minutes))
      else if minutes < 45 then (xMinutes, minutes)
      else if minutes < 90 then (aboutXHours, 1)
      else if minutes < 1440 then (aboutXHours, round_div minutes 60)
      else if minutes < 2520 then (xDays, 1)
      else if minutes < 43200 then (xDays, round_div minutes 1440)
      else if minutes < 86400 then (aboutXMonths, round_div minutes 43200)
      else
        (let months = differenceInMonths L dateRight dateLeft in
         if months < 12 then (xMonths, round_div minutes 43200)
         else
           (let monthsSinceStartOfYear = months mod 12;
                years = months div 12
            in if monthsSinceStartOfYear < 3 then (aboutXYears, years)
               else if monthsSinceStartOfYear < 9 then (overXYears, years)
               else (almostXYears, years + 1))))"

text \<open>\<open>formatDistance\<close> raises a \<open>RangeError\<close> when one of the dates is invalid.\<close>

definition formatDistance :: "datefns \<Rightarrow> date \<Rightarrow> date \<Rightarrow> bool \<Rightarrow> error + string" where
  "formatDistance L d baseDate addSuffix =
     (case (d, baseDate) of
        (Some t, Some b) \<Rightarrow>
          (let comparison = compareAsc t b;
               (dateLeft, dateRight) = (if 0 < comparison then (b, t) else (t, b));
               (tok, count) = distance_token L dateLeft dateRight
           in Inr (locale_formatDistance tok count addSuffix comparison))
      | _ \<Rightarrow> Inl (RangeError ''Invalid time value''))"

text \<open>\<open>formatDistanceToNow\<close> reads the clock once; \<open>now\<close> is what it reads.\<close>

definition formatDistanceToNow :: "datefns \<Rightarrow> int \<Rightarrow> date \<Rightarrow> bool \<Rightarrow> error + string" where
  "formatDistanceToNow L now d addSuffix = formatDistance L d (Some now) addSuffix"

section \<open>The crawler status panel\<close>

text \<open>\<open>!s\<close> for a string or \<open>null\<close>: \<open>null\<close> and the empty string are falsy.\<close>

definition falsy :: "string option \<Rightarrow> bool" where
  "falsy s = (case s of None \<Rightarrow> True | Some t \<Rightarrow> t = [])"

definition formatRelativeTime :: "datefns \<Rightarrow> int \<Rightarrow> string option \<Rightarrow> string" where
  "formatRelativeTime L now dateStr =
     (if falsy dateStr then ''Never''
      else (case formatDistanceToNow L now (parseISO L (the dateStr)) True of
              Inr t \<Rightarrow> t
            | Inl e \<Rightarrow> ''Unknown''))"

text \<open>
  \<open>CrawlSource\<close>, with the field the dashboard reads (\<open>id\<close>, here \<open>crawl_source_id\<close>)
  and the ones that identify the source; the status and the timestamps of a source are
  read nowhere in the code modelled.
\<close>

record CrawlSource =
  crawl_source_id :: string
  name :: string
  source_type :: string
  base_url :: string
  is_enabled :: bool
  priority :: int

text \<open>
  What the component \<open>CrawlerStatus\<close> renders when it is not loading: the badge, the
  button's \<open>disabled\<close> attribute and text, the last crawl and the count. While loading
  it renders a skeleton with no button (\<open>None\<close>). The component reads the clock three
  times: in \<open>getStatusBadge\<close>, in \<open>isSessionActive\<close> and in \<open>formatRelativeTime\<close>.
\<close>

record panel =
  status_badge :: "badge js"
  disabled :: bool
  button_text :: string
  last_crawl :: string
  found :: int

definition CrawlerStatus ::
  "datefns \<Rightarrow> int \<Rightarrow> int \<Rightarrow> int \<Rightarrow> CrawlSession option \<Rightarrow> CrawlSource list \<Rightarrow> bool \<Rightarrow> panel option" where
  "CrawlerStatus L now1 now2 now3 session sources loading =
     (let status = getStatusBadge L now1 session;
          lastCrawl =
            (case session of
               None \<Rightarrow> None
             | Some s \<Rightarrow> if falsy (completed_at s) then started_at s else completed_at s);
          isRunning = isSessionActive L now2 session;
          firstSource = (case sources of [] \<Rightarrow> None | src # rest \<Rightarrow> Some src)
      in if loading then None
         else Some
           \<lparr>status_badge = status,
            disabled = (isRunning \<or> firstSource = None),
            button_text = (if isRunning then ''Crawling...'' else ''Start Crawl''),
            last_crawl = formatRelativeTime L now3 (if falsy lastCrawl then None else lastCrawl),
            found = (case session of None \<Rightarrow> 0 | Some s \<Rightarrow> opportunities_found s)\<rparr>)"

text \<open>
  \<open>handleStartCrawl\<close> of the dashboard page: the identifier of the source whose crawl it
  requests, or \<open>None\<close> when it returns without a request.
\<close>

definition handleStartCrawl :: "CrawlSource list \<Rightarrow> string option" where
  "handleStartCrawl sources =
     (if length sources = 0 then None else Some (crawl_source_id (hd sources)))"

section \<open>Opportunities\<close>

text \<open>
  \<open>Opportunity\<close>, with the fields that the functions below read; the other fields of the
  interface are read by the table's markup only.
\<close>

record Opportunity =
  title :: string
  category :: "string option"
  categories :: "string list option"
  source_url :: string
  published_date :: "string option"
  submission_deadline :: "string option"

definition labels :: "(string \<times> string) list" where
  "labels =
     [(''dynamics'', ''Dynamics 365''),
      (''ai'', ''AI/ML''),
      (''iot'', ''IoT''),
      (''erp'', ''ERP''),
      (''staff_augmentation'', ''Staff Aug''),
      (''cloud'', ''Cloud''),
      (''cybersecurity'', ''Cybersecurity''),
      (''data_analytics'', ''Analytics''),
      (''other'', ''Other'')]"

text \<open>
  \<open>formatCategoryLabel\<close>. Every label of the table is a non-empty string, hence truthy,
  and so is a member inherited from \<open>Object.prototype\<close>: \<open>||\<close> falls through to the
  category itself only when the property read finds nothing.
\<close>

definition formatCategoryLabel :: "string option \<Rightarrow> string js" where
  "formatCategoryLabel cat =
     (if falsy cat then Value ''Other''
      else (case get_property labels (toLowerCase (the cat)) of
              Some v \<Rightarrow> v
            | None \<Rightarrow> Value (the cat)))"

record deadline =
  deadline_text :: string
  urgent :: bool

text \<open>
  \<open>formatDeadline\<close>; the field \<open>text\<close> of its result is \<open>deadline_text\<close>. It reads
  the clock in \<open>isPast\<close> (\<open>now1\<close>) and, when the date is not past, again in
  \<open>formatDistanceToNow\<close> (\<open>now2\<close>). An invalid date is not past (\<open>NaN < now\<close> is
  false), so it reaches \<open>formatDistanceToNow\<close>, whose \<open>RangeError\<close> the \<open>catch\<close> turns
  into \<open>Invalid date\<close>.
\<close>

definition formatDeadline :: "datefns \<Rightarrow> int \<Rightarrow> int \<Rightarrow> string option \<Rightarrow> deadline" where
  "formatDeadline L now1 now2 dl =
     (if falsy dl then \<lparr>deadline_text = ''No deadline'', urgent = False\<rparr>
      else
        (let d = parseISO L (the dl) in
         if isPast now1 d then \<lparr>deadline_text = ''Expired'', urgent = True\<rparr>
         else (case formatDistanceToNow L now2 d False of
                 Inr distance \<Rightarrow>
                   \<lparr>deadline_text = ''in '' @ distance,
                    urgent = (includes_str distance ''hour'' \<or> includes_str distance ''day'')\<rparr>
               | Inl e \<Rightarrow> \<lparr>deadline_text = ''Invalid date'', urgent = False\<rparr>)))"

text \<open>\<open>getPrimaryCategory\<close>: \<open>opp.category || null\<close> turns the empty string into \<open>null\<close>.\<close>

definition getPrimaryCategory :: "Opportunity \<Rightarrow> string option" where
  "getPrimaryCategory opp =
     (case categories opp of
        Some (c # cs) \<Rightarrow> Some c
      | _ \<Rightarrow> if falsy (category opp) then None else category opp)"

section \<open>An environment and data for concrete runs\<close>

text \<open>
  An environment in UTC (the zone offset is zero at every instant) whose parser knows
  five strings and takes every other string, the empty one too, for unparseable, as
  \<open>parseISO\<close> does for a string that is not a date. Months are counted as thirty days,
  which agrees with the calendar on the one run below that reaches them (from the first
  of January to the second of March 1970 there are two full months).
\<close>

definition example_parse :: "string \<Rightarrow> date" where
  "example_parse =
     map_of
       [(''1970-01-01T00:00:00.000Z'', 0),
        (''1970-01-01T00:30:00.000Z'', 1800000),
        (''1970-01-01T03:00:00.000Z'', 10800000),
        (''1970-01-11T00:00:00.000Z'', 864000000),
        (''1970-03-02T00:00:00.000Z'', 5184000000)]"

definition example_datefns :: datefns where
  "example_datefns =
     \<lparr>parseISO = example_parse,
      getTimezoneOffsetInMilliseconds = (\<lambda>t. 0),
      differenceInMonths = (\<lambda>l r. trunc_div (l - r) 2592000000)\<rparr>"

text \<open>A pending session created at the epoch.\<close>

definition example_session :: CrawlSession where
  "example_session =
     \<lparr>session_id = ''s1'', source_id = ''src1'', status = ''pending'',
      started_at = None, completed_at = None, opportunities_found = 0,
      opportunities_new = 0, opportunities_updated = 0, pages_crawled = 0,
      errors_count = 0, last_error_message = None,
      created_at = ''1970-01-01T00:00:00.000Z''\<rparr>"

definition example_source :: CrawlSource where
  "example_source =
     \<lparr>crawl_source_id = ''src1'', name = ''State portal'', source_type = ''state'',
      base_url = ''https://example.org'', is_enabled = True, priority = 1\<rparr>"

definition example_opportunity :: Opportunity where
  "example_opportunity =
     \<lparr>title = ''Cloud migration'', category = Some ''iot'',
      categories = Some [''ai'', ''erp''], source_url = ''https://example.org/rfp/1'',
      published_date = None, submission_deadline = Some ''1970-01-11T00:00:00.000Z''\<rparr>"

section \<open>Session liveness\<close>

text \<open>Truncating the minutes loses nothing at the threshold of two minutes.\<close>

lemma trunc_div_less_2: "(trunc_div d 60000 < 2) = (d < 120000)"
  unfolding trunc_div_def by (cases "0 \<le> d") (auto simp: div_less_iff_less_mult zdiv_int)

lemma isSessionActive_pending_eq:
  assumes "status s = ''pending''" and "parseISO L (created_at s) = Some created"
  shows "isSessionActive L now (Some s) = (now - created < 120000)"
  using assms
  by (simp add: isSessionActive_def differenceInMinutes_def differenceInMilliseconds_def
      js_less_def trunc_div_less_2)

lemma isSessionActive_pending_invalid:
  assumes "status s = ''pending''" and "parseISO L (created_at s) = None"
  shows "\<not> isSessionActive L now (Some s)"
  using assms
  by (simp add: isSessionActive_def differenceInMinutes_def differenceInMilliseconds_def
      js_less_def)

lemma example_session_pending: "status example_session = ''pending''"
  by (simp add: example_session_def)

lemma example_session_created:
  "parseISO example_datefns (created_at example_session) = Some 0"
  by (simp add: example_session_def example_datefns_def example_parse_def)

text \<open>
  C1. A pending session whose \<open>created_at\<close> parses is active at the clock reading \<open>now\<close>
  exactly when less than two minutes (120000 ms) have passed since its creation. After
  119 seconds it is active, after 120 seconds it is not.
\<close>

theorem isSessionActive_pending_window:
  assumes "status s = ''pending''" and "parseISO L (created_at s) = Some created"
  shows "isSessionActive L now (Some s) = (now - created < 2 * 60 * 1000) \<and>
         (now - created = 119 * 1000 \<longrightarrow> isSessionActive L now (Some s)) \<and>
         (now - created = 120 * 1000 \<longrightarrow> \<not> isSessionActive L now (Some s))"
  using isSessionActive_pending_eq [OF assms, of now] by simp

theorem isSessionActive_pending_window_witness:
  "isSessionActive example_datefns 119000 (Some example_session) \<and>
   \<not> isSessionActive example_datefns 120000 (Some example_session)"
  using isSessionActive_pending_window
      [OF example_session_pending example_session_created, of 119000]
    isSessionActive_pending_window
      [OF example_session_pending example_session_created, of 120000]
  by simp

text \<open>
  C4. A running session is active whatever its \<open>created_at\<close> holds; a completed, failed
  or cancelled session is not active; no session is not active.
\<close>

theorem isSessionActive_running_terminal_absent:
  "(status s = ''running'' \<longrightarrow> isSessionActive L now (Some s)) \<and>
   (status s = ''completed'' \<or> status s = ''failed'' \<or> status s = ''cancelled''
      \<longrightarrow> \<not> isSessionActive L now (Some s)) \<and>
   \<not> isSessionActive L now None"
  by (auto simp: isSessionActive_def)

theorem isSessionActive_running_terminal_absent_witness:
  "isSessionActive example_datefns 500000
     (Some (example_session\<lparr>status := ''running'', created_at := ''not a date''\<rparr>)) \<and>
   \<not> isSessionActive example_datefns 0 (Some (example_session\<lparr>status := ''completed''\<rparr>)) \<and>
   \<not> isSessionActive example_datefns 0 (Some (example_session\<lparr>status := ''failed''\<rparr>)) \<and>
   \<not> isSessionActive example_datefns 0 (Some (example_session\<lparr>status := ''cancelled''\<rparr>)) \<and>
   \<not> isSessionActive example_datefns 0 None"
  using isSessionActive_running_terminal_absent
      [of "example_session\<lparr>status := ''running'', created_at := ''not a date''\<rparr>"
        example_datefns 500000]
    isSessionActive_running_terminal_absent
      [of "example_session\<lparr>status := ''completed''\<rparr>" example_datefns 0]
    isSessionActive_running_terminal_absent
      [of "example_session\<lparr>status := ''failed''\<rparr>" example_datefns 0]
    isSessionActive_running_terminal_absent
      [of "example_session\<lparr>status := ''cancelled''\<rparr>" example_datefns 0]
  by simp

text \<open>
  C9. The claim does not hold of the code. \<open>isSessionActive\<close> has no reference time
  among its parameters and reads the system clock inside itself: two runs on the same
  session, two minutes apart, return different results.
\<close>

theorem isSessionActive_depends_on_clock:
  "isSessionActive example_datefns 0 (Some example_session) \<noteq>
   isSessionActive example_datefns 120000 (Some example_session)"
  using isSessionActive_pending_eq [OF example_session_pending example_session_created, of 0]
    isSessionActive_pending_eq
      [OF example_session_pending example_session_created, of 120000]
  by simp

text \<open>
  C9, as amended. The result of a call is determined by the session and by the one
  reading of the clock that the call makes. Two calls on the same session agree whenever
  their readings agree; they can differ only for a pending session whose \<open>created_at\<close>
  parses, and only when the two readings lie on different sides of two minutes after
  the creation.
\<close>

theorem isSessionActive_clock_dependence:
  "isSessionActive L now session \<noteq> isSessionActive L now' session \<longrightarrow>
     (\<exists>s created. session = Some s \<and> status s = ''pending'' \<and>
        parseISO L (created_at s) = Some created \<and>
        (now - created < 120000) \<noteq> (now' - created < 120000))"
proof (cases session)
  case None
  then show ?thesis by (simp add: isSessionActive_def)
next
  case (Some s)
  show ?thesis
  proof (cases "status s = ''pending''")
    case False
    with Some show ?thesis by (simp add: isSessionActive_def)
  next
    case True
    show ?thesis
    proof (cases "parseISO L (created_at s)")
      case None
      with True \<open>session = Some s\<close> show ?thesis
        using isSessionActive_pending_invalid by blast
    next
      case (Some created)
      with True \<open>session = Some s\<close> show ?thesis
        using isSessionActive_pending_eq by blast
    qed
  qed
qed

theorem isSessionActive_clock_dependence_witness:
  "\<exists>s created. Some example_session = Some s \<and> status s = ''pending'' \<and>
     parseISO example_datefns (created_at s) = Some created \<and>
     (0 - created < 120000) \<noteq> (120000 - created < 120000)"
proof -
  have "isSessionActive example_datefns 0 (Some example_session) \<noteq>
        isSessionActive example_datefns 120000 (Some example_session)"
    using isSessionActive_pending_eq
        [OF example_session_pending example_session_created, of 0]
      isSessionActive_pending_eq
        [OF example_session_pending example_session_created, of 120000]
    by simp
  with isSessionActive_clock_dependence
      [of example_datefns 0 "Some example_session" 120000]
  show ?thesis by blast
qed

section \<open>The status badge\<close>

lemma config_lookup:
  "map_of config k =
     (if k = ''completed'' then Some (snd (config ! 0))
      else if k = ''running'' then Some (snd (config ! 1))
      else if k = ''pending'' then Some (snd (config ! 2))
      else if k = ''failed'' then Some (snd (config ! 3))
      else if k = ''cancelled'' then Some (snd (config ! 4)) else None)"
  by (simp add: config_def)

text \<open>
  What \<open>getStatusBadge\<close> does on every input but a status that names a member of
  \<open>Object.prototype\<close>. The label is \<open>Ready\<close> when there is no session, when the session
  is pending and not active (its \<open>created_at\<close> is two minutes old or more), and when the
  status is none of the five mapped ones. Otherwise the status is mapped: completed,
  running, pending (while active), failed and cancelled to the label of the same name.
\<close>

lemma getStatusBadge_labels:
  "label_of (getStatusBadge L now None) = Some ''Ready'' \<and>
   (status s = ''pending'' \<and> \<not> isSessionActive L now (Some s)
      \<longrightarrow> label_of (getStatusBadge L now (Some s)) = Some ''Ready'') \<and>
   (status s = ''pending'' \<and> parseISO L (created_at s) = Some created \<and>
    120000 \<le> now - created
      \<longrightarrow> label_of (getStatusBadge L now (Some s)) = Some ''Ready'') \<and>
   (status s = ''pending'' \<and> isSessionActive L now (Some s)
      \<longrightarrow> label_of (getStatusBadge L now (Some s)) = Some ''Pending'') \<and>
   (status s = ''completed''
      \<longrightarrow> label_of (getStatusBadge L now (Some s)) = Some ''Completed'') \<and>
   (status s = ''running''
      \<longrightarrow> label_of (getStatusBadge L now (Some s)) = Some ''Running'') \<and>
   (status s = ''failed''
      \<longrightarrow> label_of (getStatusBadge L now (Some s)) = Some ''Failed'') \<and>
   (status s = ''cancelled''
      \<longrightarrow> label_of (getStatusBadge L now (Some s)) = Some ''Cancelled'') \<and>
   (status s \<notin> {''completed'', ''running'', ''pending'', ''failed'', ''cancelled''} \<and>
    status s \<notin> set object_prototype_keys
      \<longrightarrow> label_of (getStatusBadge L now (Some s)) = Some ''Ready'')"
  using isSessionActive_pending_eq [of s L created now]
  by (auto simp: getStatusBadge_def get_property_def config_lookup config_def label_of_def
      ready_badge_def Let_def)

lemma getStatusBadge_labels_examples:
  "label_of (getStatusBadge example_datefns 0 None) = Some ''Ready'' \<and>
   label_of (getStatusBadge example_datefns 120000 (Some example_session)) = Some ''Ready'' \<and>
   label_of (getStatusBadge example_datefns 119000 (Some example_session)) = Some ''Pending'' \<and>
   label_of (getStatusBadge example_datefns 0 (Some (example_session\<lparr>status := ''failed''\<rparr>)))
     = Some ''Failed'' \<and>
   label_of (getStatusBadge example_datefns 0 (Some (example_session\<lparr>status := ''paused''\<rparr>)))
     = Some ''Ready''"
proof -
  have a: "isSessionActive example_datefns 119000 (Some example_session)"
    using isSessionActive_pending_eq
        [OF example_session_pending example_session_created, of 119000]
    by simp
  show ?thesis
    using getStatusBadge_labels [of example_datefns 120000 example_session 0]
      getStatusBadge_labels [of example_datefns 119000 example_session 0]
      getStatusBadge_labels
        [of example_datefns 0 "example_session\<lparr>status := ''failed''\<rparr>" 0]
      getStatusBadge_labels
        [of example_datefns 0 "example_session\<lparr>status := ''paused''\<rparr>" 0]
      getStatusBadge_labels [of example_datefns 0 example_session 0]
      a example_session_pending example_session_created
    by (simp add: object_prototype_keys_def)
qed

text \<open>
  C2. The code does not do what the claim says for every unmapped status. The fallback
  \<open>config[session.status] || ready\<close> is written to give \<open>Ready\<close> for any status that
  \<open>config\<close> does not map, and it does so for a status such as \<open>paused\<close>. For the status
  \<open>constructor\<close> the property read finds the member that the object literal inherits
  from \<open>Object.prototype\<close>; it is truthy, so the fallback is not taken, the function
  returns that member instead of a badge, and the label read from it is \<open>undefined\<close>,
  not \<open>Ready\<close>.
\<close>

theorem getStatusBadge_constructor_not_ready:
  "getStatusBadge example_datefns 0 (Some (example_session\<lparr>status := ''constructor''\<rparr>))
     = ProtoMember ''constructor'' \<and>
   label_of
     (getStatusBadge example_datefns 0 (Some (example_session\<lparr>status := ''constructor''\<rparr>)))
     = None \<and>
   label_of
     (getStatusBadge example_datefns 0 (Some (example_session\<lparr>status := ''constructor''\<rparr>)))
     \<noteq> Some ''Ready'' \<and>
   label_of
     (getStatusBadge example_datefns 0 (Some (example_session\<lparr>status := ''paused''\<rparr>)))
     = Some ''Ready''"
  by (simp add: getStatusBadge_def isSessionActive_def get_property_def config_def
      object_prototype_keys_def label_of_def example_session_def ready_badge_def)

section \<open>The Start Crawl button\<close>

text \<open>
  C5. When the panel is rendered (the component is not loading), the Start Crawl button
  is enabled exactly when there is a source and the session is not active at the clock
  reading of the component's call of \<open>isSessionActive\<close>. With no source the button is
  disabled whatever the session is, and the click handler requests nothing.
\<close>

theorem start_crawl_enabled_iff:
  "\<exists>p. CrawlerStatus L now1 now2 now3 session sources False = Some p \<and>
        (\<not> disabled p) = (sources \<noteq> [] \<and> \<not> isSessionActive L now2 session) \<and>
        (sources = [] \<longrightarrow> disabled p \<and> handleStartCrawl sources = None)"
  by (auto simp: CrawlerStatus_def Let_def handleStartCrawl_def split: list.splits)

theorem start_crawl_enabled_iff_witness:
  "(\<exists>p. CrawlerStatus example_datefns 0 0 0 None [example_source] False = Some p \<and>
        \<not> disabled p) \<and>
   (\<exists>p. CrawlerStatus example_datefns 0 0 0 (Some example_session) [example_source] False
          = Some p \<and> disabled p) \<and>
   (\<exists>p. CrawlerStatus example_datefns 0 0 0 None [] False = Some p \<and> disabled p \<and>
        handleStartCrawl [] = None)"
proof -
  have a: "\<not> isSessionActive example_datefns 0 None"
    by (simp add: isSessionActive_def)
  have b: "isSessionActive example_datefns 0 (Some example_session)"
    using isSessionActive_pending_eq
        [OF example_session_pending example_session_created, of 0]
    by simp
  show ?thesis
    using start_crawl_enabled_iff [of example_datefns 0 0 0 None "[example_source]"]
      start_crawl_enabled_iff
        [of example_datefns 0 0 0 "Some example_session" "[example_source]"]
      start_crawl_enabled_iff [of example_datefns 0 0 0 None "[]"] a b
    by simp
qed

section \<open>Categories\<close>

text \<open>
  C6. \<open>getPrimaryCategory\<close> is a total function with no error result. It returns the
  first element of \<open>categories\<close> when that list is present and not empty; otherwise the
  legacy \<open>category\<close> when that is set (the empty string counts as not set, as \<open>null\<close>
  does); otherwise \<open>null\<close>. The three examples of the specification are instances.
\<close>

theorem getPrimaryCategory_cases:
  "(\<forall>c cs. categories opp = Some (c # cs) \<longrightarrow> getPrimaryCategory opp = Some c) \<and>
   (categories opp = None \<or> categories opp = Some [] \<longrightarrow>
      getPrimaryCategory opp =
        (case category opp of None \<Rightarrow> None | Some c \<Rightarrow> if c = [] then None else Some c)) \<and>
   getPrimaryCategory (opp\<lparr>categories := Some [''ai'', ''erp'']\<rparr>) = Some ''ai'' \<and>
   getPrimaryCategory (opp\<lparr>categories := Some [], category := Some ''iot''\<rparr>) = Some ''iot'' \<and>
   getPrimaryCategory (opp\<lparr>categories := None, category := None\<rparr>) = None"
  by (auto simp: getPrimaryCategory_def falsy_def split: option.splits list.splits)

theorem getPrimaryCategory_cases_witness:
  "getPrimaryCategory example_opportunity = Some ''ai'' \<and>
   getPrimaryCategory (example_opportunity\<lparr>categories := Some []\<rparr>) = Some ''iot'' \<and>
   getPrimaryCategory (example_opportunity\<lparr>categories := None, category := None\<rparr>) = None"
  using getPrimaryCategory_cases [of example_opportunity]
    getPrimaryCategory_cases [of "example_opportunity\<lparr>categories := Some []\<rparr>"]
  by (simp add: example_opportunity_def)

text \<open>
  C10. The empty string is treated as an absent category: \<open>formatCategoryLabel\<close> returns
  \<open>Other\<close> for it, as for \<open>null\<close>, and \<open>getPrimaryCategory\<close> returns \<open>null\<close>, not the
  empty string, when \<open>categories\<close> is absent or empty and the legacy \<open>category\<close> is the
  empty string.
\<close>

theorem empty_category_is_absent:
  "formatCategoryLabel (Some []) = Value ''Other'' \<and>
   formatCategoryLabel None = Value ''Other'' \<and>
   ((categories opp = None \<or> categories opp = Some []) \<and> category opp = Some []
      \<longrightarrow> getPrimaryCategory opp = None \<and> getPrimaryCategory opp \<noteq> Some [])"
  by (auto simp: getPrimaryCategory_def formatCategoryLabel_def falsy_def)

theorem empty_category_is_absent_witness:
  "getPrimaryCategory (example_opportunity\<lparr>categories := Some [], category := Some []\<rparr>) = None \<and>
   getPrimaryCategory (example_opportunity\<lparr>categories := None, category := Some []\<rparr>) = None \<and>
   formatCategoryLabel (Some []) = Value ''Other''"
  using empty_category_is_absent
      [of "example_opportunity\<lparr>categories := Some [], category := Some []\<rparr>"]
    empty_category_is_absent
      [of "example_opportunity\<lparr>categories := None, category := Some []\<rparr>"]
  by simp

lemma labels_lookup:
  "map_of labels k =
     (if k = ''dynamics'' then Some ''Dynamics 365''
      else if k = ''ai'' then Some ''AI/ML''
      else if k = ''iot'' then Some ''IoT''
      else if k = ''erp'' then Some ''ERP''
      else if k = ''staff_augmentation'' then Some ''Staff Aug''
      else if k = ''cloud'' then Some ''Cloud''
      else if k = ''cybersecurity'' then Some ''Cybersecurity''
      else if k = ''data_analytics'' then Some ''Analytics''
      else if k = ''other'' then Some ''Other'' else None)"
  by (simp add: labels_def)

lemma toLowerCase_Nil_iff: "(toLowerCase c = []) = (c = [])"
  by (simp add: toLowerCase_def)

lemma formatCategoryLabel_known:
  assumes "map_of labels (toLowerCase c) = Some v"
  shows "formatCategoryLabel (Some c) = Value v"
proof -
  from assms have "toLowerCase c \<noteq> []"
    by (auto simp: labels_lookup split: if_splits)
  then have "c \<noteq> []" by (simp add: toLowerCase_Nil_iff)
  with assms show ?thesis
    by (simp add: formatCategoryLabel_def falsy_def get_property_def)
qed

lemma lower_DYNAMICS: "toLowerCase ''DYNAMICS'' = ''dynamics''"
  by code_simp

lemma lower_dynamics: "toLowerCase ''dynamics'' = ''dynamics''"
  by code_simp

lemma lower_Quantum: "toLowerCase ''Quantum'' = ''quantum''"
  by code_simp

lemma lower_Staff: "toLowerCase ''Staff_Augmentation'' = ''staff_augmentation''"
  by code_simp

text \<open>
  C7. The claim does not hold of the code for every unknown code that is not \<open>null\<close>:
  the empty string is such a code, and \<open>formatCategoryLabel\<close> returns \<open>Other\<close> for it,
  not the empty string.
\<close>

theorem formatCategoryLabel_empty_not_verbatim:
  "formatCategoryLabel (Some []) \<noteq> Value []"
  by (simp add: formatCategoryLabel_def falsy_def)

text \<open>
  C7, as amended. \<open>formatCategoryLabel\<close> maps \<open>null\<close> and the empty string to \<open>Other\<close>.
  It maps a code whose lower-case form is a key of the table to that key's label, so
  \<open>DYNAMICS\<close> and \<open>dynamics\<close> both give \<open>Dynamics 365\<close>. It returns any other
  non-empty code as it is, provided the code's lower-case form does not name a member
  of \<open>Object.prototype\<close>.
\<close>

theorem formatCategoryLabel_table:
  "formatCategoryLabel None = Value ''Other'' \<and>
   formatCategoryLabel (Some []) = Value ''Other'' \<and>
   (toLowerCase c = ''dynamics'' \<longrightarrow> formatCategoryLabel (Some c) = Value ''Dynamics 365'') \<and>
   (toLowerCase c = ''ai'' \<longrightarrow> formatCategoryLabel (Some c) = Value ''AI/ML'') \<and>
   (toLowerCase c = ''iot'' \<longrightarrow> formatCategoryLabel (Some c) = Value ''IoT'') \<and>
   (toLowerCase c = ''erp'' \<longrightarrow> formatCategoryLabel (Some c) = Value ''ERP'') \<and>
   (toLowerCase c = ''staff_augmentation''
      \<longrightarrow> formatCategoryLabel (Some c) = Value ''Staff Aug'') \<and>
   (toLowerCase c = ''cloud'' \<longrightarrow> formatCategoryLabel (Some c) = Value ''Cloud'') \<and>
   (toLowerCase c = ''cybersecurity''
      \<longrightarrow> formatCategoryLabel (Some c) = Value ''Cybersecurity'') \<and>
   (toLowerCase c = ''data_analytics''
      \<longrightarrow> formatCategoryLabel (Some c) = Value ''Analytics'') \<and>
   (toLowerCase c = ''other'' \<longrightarrow> formatCategoryLabel (Some c) = Value ''Other'') \<and>
   formatCategoryLabel (Some ''DYNAMICS'') = Value ''Dynamics 365'' \<and>
   formatCategoryLabel (Some ''dynamics'') = Value ''Dynamics 365'' \<and>
   (c \<noteq> [] \<and> toLowerCase c \<notin> set (map fst labels) \<and>
    toLowerCase c \<notin> set object_prototype_keys
      \<longrightarrow> formatCategoryLabel (Some c) = Value c)"
proof -
  have known:
    "\<And>v. map_of labels (toLowerCase c) = Some v \<Longrightarrow> formatCategoryLabel (Some c) = Value v"
    by (rule formatCategoryLabel_known)
  have a: "formatCategoryLabel (Some ''DYNAMICS'') = Value ''Dynamics 365''"
    by (rule formatCategoryLabel_known) (simp add: lower_DYNAMICS labels_lookup)
  have b: "formatCategoryLabel (Some ''dynamics'') = Value ''Dynamics 365''"
    by (rule formatCategoryLabel_known) (simp add: lower_dynamics labels_lookup)
  have u: "c \<noteq> [] \<and> toLowerCase c \<notin> set (map fst labels) \<and>
      toLowerCase c \<notin> set object_prototype_keys
        \<longrightarrow> formatCategoryLabel (Some c) = Value c"
  proof (intro impI, elim conjE)
    assume c: "c \<noteq> []" and l: "toLowerCase c \<notin> set (map fst labels)"
      and k: "toLowerCase c \<notin> set object_prototype_keys"
    from l have "map_of labels (toLowerCase c) = None"
      by (simp add: map_of_eq_None_iff)
    with c k show "formatCategoryLabel (Some c) = Value c"
      by (simp add: formatCategoryLabel_def falsy_def get_property_def)
  qed
  have n: "formatCategoryLabel None = Value ''Other''"
    "formatCategoryLabel (Some []) = Value ''Other''"
    by (simp_all add: formatCategoryLabel_def falsy_def)
  show ?thesis
    using known a b n by (intro conjI u) (simp_all add: labels_lookup)
qed

theorem formatCategoryLabel_table_witness:
  "formatCategoryLabel (Some ''Staff_Augmentation'') = Value ''Staff Aug'' \<and>
   formatCategoryLabel (Some ''Quantum'') = Value ''Quantum''"
  using formatCategoryLabel_table [of "''Staff_Augmentation''"]
    formatCategoryLabel_table [of "''Quantum''"]
  by (simp add: lower_Staff lower_Quantum labels_def object_prototype_keys_def)

section \<open>Malformed dates\<close>

lemma formatDistance_invalid:
  "formatDistance L None b addSuffix = Inl (RangeError ''Invalid time value'')"
  by (simp add: formatDistance_def)

lemma formatDeadline_invalid:
  assumes "s \<noteq> []" and "parseISO L s = None"
  shows "formatDeadline L now1 now2 (Some s) =
         \<lparr>deadline_text = ''Invalid date'', urgent = False\<rparr>"
  using assms
  by (simp add: formatDeadline_def falsy_def isPast_def js_less_def formatDistanceToNow_def
      formatDistance_invalid)

lemma formatRelativeTime_invalid:
  assumes "s \<noteq> []" and "parseISO L s = None"
  shows "formatRelativeTime L now (Some s) = ''Unknown''"
  using assms
  by (simp add: formatRelativeTime_def falsy_def formatDistanceToNow_def
      formatDistance_invalid)

lemma example_not_a_date: "parseISO example_datefns ''not a date'' = None"
  by (simp add: example_datefns_def example_parse_def)

text \<open>
  C8. The claim does not hold of the code for every unparseable string. The empty string
  is unparseable, and for it \<open>formatDeadline\<close> returns \<open>No deadline\<close>, not
  \<open>Invalid date\<close>, and \<open>formatRelativeTime\<close> returns \<open>Never\<close>, not \<open>Unknown\<close>: both
  functions return on \<open>!s\<close> before they parse.
\<close>

theorem empty_date_string_not_invalid:
  "parseISO example_datefns [] = None \<and>
   formatDeadline example_datefns 0 0 (Some [])
     \<noteq> \<lparr>deadline_text = ''Invalid date'', urgent = False\<rparr> \<and>
   formatRelativeTime example_datefns 0 (Some []) \<noteq> ''Unknown''"
  by (simp add: formatDeadline_def formatRelativeTime_def falsy_def example_datefns_def
      example_parse_def)

text \<open>
  C8, as amended. The functions are total and have no error result: the one exception
  that the library raises, the \<open>RangeError\<close> of \<open>formatDistance\<close> on an invalid date, is
  caught. On a non-empty string that does not parse, \<open>formatDeadline\<close> returns
  \<open>Invalid date\<close> with \<open>urgent\<close> false and \<open>formatRelativeTime\<close> returns \<open>Unknown\<close>.
  \<open>formatRelativeTime\<close> returns \<open>Never\<close> for \<open>null\<close> and for the empty string, and
  \<open>formatDeadline\<close> returns \<open>No deadline\<close> for the empty string. A pending session whose
  \<open>created_at\<close> does not parse is not active.
\<close>

theorem malformed_dates_degrade:
  "formatRelativeTime L now None = ''Never'' \<and>
   formatRelativeTime L now (Some []) = ''Never'' \<and>
   formatDeadline L now1 now2 (Some []) = \<lparr>deadline_text = ''No deadline'', urgent = False\<rparr> \<and>
   (s \<noteq> [] \<and> parseISO L s = None \<longrightarrow>
      formatDeadline L now1 now2 (Some s) = \<lparr>deadline_text = ''Invalid date'', urgent = False\<rparr> \<and>
      formatRelativeTime L now (Some s) = ''Unknown'') \<and>
   (status x = ''pending'' \<and> parseISO L (created_at x) = None \<longrightarrow>
      \<not> isSessionActive L now (Some x))"
  using formatDeadline_invalid [of s L now1 now2] formatRelativeTime_invalid [of s L now]
    isSessionActive_pending_invalid [of x L now]
  by (simp add: formatRelativeTime_def formatDeadline_def falsy_def)

theorem malformed_dates_degrade_witness:
  "formatDeadline example_datefns 0 0 (Some ''not a date'')
     = \<lparr>deadline_text = ''Invalid date'', urgent = False\<rparr> \<and>
   formatRelativeTime example_datefns 0 (Some ''not a date'') = ''Unknown'' \<and>
   \<not> isSessionActive example_datefns 0
       (Some (example_session\<lparr>created_at := ''not a date''\<rparr>))"
  using malformed_dates_degrade
      [of example_datefns 0 0 0 "''not a date''"
        "example_session\<lparr>created_at := ''not a date''\<rparr>"]
    example_not_a_date example_session_pending
  by simp

section \<open>Deadlines\<close>

text \<open>
  Whether a relative duration contains \<open>hour\<close> or \<open>day\<close> is decided by its unit: the
  count is made of digits, which occur in neither word.
\<close>

lemma startsWith_append_disjoint:
  assumes "d \<noteq> []" and "set n \<inter> set d = {}"
  shows "startsWith (a @ d @ b) n = startsWith a n"
  using assms
proof (induction a n rule: startsWith.induct)
  case (1 s)
  then show ?case by simp
next
  case (2 n ns)
  then show ?case by (cases d) auto
next
  case (3 c cs n ns)
  then show ?case by auto
qed

lemma includes_skip_disjoint:
  assumes "set n \<inter> set d = {}" and "n \<noteq> []"
  shows "includes_str (d @ b) n = includes_str b n"
  using assms
proof (induction d)
  case Nil
  then show ?case by simp
next
  case (Cons x d)
  then show ?case by (cases n) auto
qed

lemma includes_append_disjoint:
  assumes "d \<noteq> []" and "set n \<inter> set d = {}" and "n \<noteq> []"
  shows "includes_str (a @ d @ b) n = (includes_str a n \<or> includes_str b n)"
proof (induction a)
  case Nil
  from assms(3) have "\<not> startsWith [] n" by (cases n) auto
  with includes_skip_disjoint [OF assms(2,3)] show ?case by simp
next
  case (Cons c a)
  have "startsWith ((c # a) @ d @ b) n = startsWith (c # a) n"
    by (rule startsWith_append_disjoint [OF assms(1,2)])
  with Cons show ?case by auto
qed

lemma digit_char_table: "map digit_char [0, 1, 2, 3, 4, 5, 6, 7, 8, 9] = ''0123456789''"
  by code_simp

lemma digit_char_in:
  assumes "k < 10"
  shows "digit_char k \<in> set ''0123456789''"
proof -
  from assms have "k \<in> set [0, 1, 2, 3, 4, 5, 6, 7, 8, 9]"
    by (simp del: One_nat_def) arith
  then have "digit_char k \<in> set (map digit_char [0, 1, 2, 3, 4, 5, 6, 7, 8, 9])"
    by (simp only: set_map) (rule imageI)
  then show ?thesis by (simp only: digit_char_table)
qed

lemma digits_of_chars: "set (digits_of n) \<subseteq> set ''0123456789''"
proof (induction n rule: digits_of.induct)
  case (1 n)
  show ?case
  proof (cases "n < 10")
    case True
    then show ?thesis
      using digit_char_in [of n] by (subst digits_of.simps) simp
  next
    case False
    with 1 have "set (digits_of (n div 10)) \<subseteq> set ''0123456789''" by simp
    moreover have "digit_char (n mod 10) \<in> set ''0123456789''"
      by (rule digit_char_in) simp
    ultimately show ?thesis
      using False by (subst digits_of.simps) simp
  qed
qed

lemma digits_of_not_Nil: "digits_of n \<noteq> []"
  by (subst digits_of.simps) simp

lemma toString_not_Nil: "toString i \<noteq> []"
  by (simp add: toString_def digits_of_not_Nil)

lemma toString_disjoint:
  assumes "set n \<inter> set ''-0123456789'' = {}"
  shows "set n \<inter> set (toString i) = {}"
proof -
  define D where "D = set ''0123456789''"
  define N where "N = set n"
  have d: "set (digits_of k) \<subseteq> D" for k
    unfolding D_def by (rule digits_of_chars)
  from assms have m: "CHR ''-'' \<notin> N" and nd: "N \<inter> D = {}"
    unfolding D_def N_def by auto
  have "set (toString i) \<subseteq> insert CHR ''-'' D"
  proof (cases "i < 0")
    case True
    then have "set (toString i) = insert CHR ''-'' (set (digits_of (nat (- i))))"
      by (simp add: toString_def)
    with d [of "nat (- i)"] show ?thesis by blast
  next
    case False
    then have "set (toString i) = set (digits_of (nat i))"
      by (simp add: toString_def)
    with d [of "nat i"] show ?thesis by blast
  qed
  with m nd show ?thesis unfolding N_def [symmetric] by blast
qed

lemma hour_disjoint: "set ''hour'' \<inter> set (toString i) = {}"
  by (rule toString_disjoint) simp

lemma day_disjoint: "set ''day'' \<inter> set (toString i) = {}"
  by (rule toString_disjoint) simp

lemma token_text_other:
  assumes "count \<noteq> 1"
  shows "token_text tok count =
         fst (snd (formatDistanceLocale tok)) @ toString count @
         snd (snd (formatDistanceLocale tok))"
  using assms by (simp add: token_text_def split: prod.splits)

lemma token_text_includes:
  assumes "count \<noteq> 1" and "set n \<inter> set (toString count) = {}" and "n \<noteq> []"
  shows "includes_str (token_text tok count) n =
         (includes_str (fst (snd (formatDistanceLocale tok))) n \<or>
          includes_str (snd (snd (formatDistanceLocale tok))) n)"
  unfolding token_text_other [OF assms(1)]
  by (rule includes_append_disjoint [OF toString_not_Nil assms(2,3)])

lemma token_text_hour: "includes_str (token_text tok count) ''hour'' = (tok = aboutXHours)"
proof (cases "count = 1")
  case True
  then show ?thesis by (cases tok) (simp_all add: token_text_def)
next
  case False
  show ?thesis
    unfolding token_text_includes [OF False hour_disjoint, of tok, simplified]
    by (cases tok) simp_all
qed

lemma token_text_day: "includes_str (token_text tok count) ''day'' = (tok = xDays)"
proof (cases "count = 1")
  case True
  then show ?thesis by (cases tok) (simp_all add: token_text_def)
next
  case False
  show ?thesis
    unfolding token_text_includes [OF False day_disjoint, of tok, simplified]
    by (cases tok) simp_all
qed

lemma formatDeadline_absent:
  "formatDeadline L now1 now2 None = \<lparr>deadline_text = ''No deadline'', urgent = False\<rparr>"
  by (simp add: formatDeadline_def falsy_def)

lemma formatDeadline_past:
  assumes "s \<noteq> []" and "parseISO L s = Some t" and "t < now1"
  shows "formatDeadline L now1 now2 (Some s) = \<lparr>deadline_text = ''Expired'', urgent = True\<rparr>"
  using assms by (simp add: formatDeadline_def falsy_def isPast_def js_less_def)

lemma formatDeadline_future:
  assumes "s \<noteq> []" and "parseISO L s = Some t" and "now1 \<le> t"
  shows "formatDeadline L now1 now2 (Some s) =
         (case (if now2 < t then distance_token L now2 t else distance_token L t now2) of
            (tok, count) \<Rightarrow>
              \<lparr>deadline_text = ''in '' @ token_text tok count,
               urgent = (tok = aboutXHours \<or> tok = xDays)\<rparr>)"
  using assms
  by (simp add: formatDeadline_def falsy_def isPast_def js_less_def formatDistanceToNow_def
      formatDistance_def compareAsc_def locale_formatDistance_def token_text_hour
      token_text_day split: prod.splits)

lemma round_div_mono: "a \<le> b \<Longrightarrow> 0 < k \<Longrightarrow> round_div a k \<le> round_div b k"
  unfolding round_div_def by (rule zdiv_mono1) simp_all

lemma distance_minutes_bounds:
  assumes "lo \<le> b - a" and "b - a \<le> hi" and "0 \<le> lo"
    and "\<bar>getTimezoneOffsetInMilliseconds L b - getTimezoneOffsetInMilliseconds L a\<bar> \<le> 3600000"
  shows "round_div (1000 * (lo div 1000) - 3600000) 60000 \<le> distance_minutes L a b"
    and "distance_minutes L a b \<le> round_div (1000 * (hi div 1000) + 3600000) 60000"
proof -
  from assms have nn: "0 \<le> b - a" by simp
  then have s: "trunc_div (b - a) 1000 = (b - a) div 1000"
    by (simp add: trunc_div_def)
  have l: "lo div 1000 \<le> (b - a) div 1000"
    by (rule zdiv_mono1) (use assms in simp_all)
  have h: "(b - a) div 1000 \<le> hi div 1000"
    by (rule zdiv_mono1) (use assms in simp_all)
  show "round_div (1000 * (lo div 1000) - 3600000) 60000 \<le> distance_minutes L a b"
    unfolding distance_minutes_def Let_def s
    by (rule round_div_mono) (use l assms(4) in simp_all)
  show "distance_minutes L a b \<le> round_div (1000 * (hi div 1000) + 3600000) 60000"
    unfolding distance_minutes_def Let_def s
    by (rule round_div_mono) (use h assms(4) in simp_all)
qed

lemma distance_token_hours:
  assumes "90 \<le> distance_minutes L a b" and "distance_minutes L a b < 1440"
  shows "fst (distance_token L a b) = aboutXHours"
  using assms by (simp add: distance_token_def Let_def)

lemma distance_token_days:
  assumes "2520 \<le> distance_minutes L a b" and "distance_minutes L a b < 43200"
  shows "distance_token L a b = (xDays, round_div (distance_minutes L a b) 1440)"
  using assms by (simp add: distance_token_def Let_def)

lemma formatDeadline_three_hours:
  assumes "s \<noteq> []" and "parseISO L s = Some t" and "t - now1 = 10800000"
    and "now1 \<le> now2" and "now2 - now1 < 60000"
    and "\<bar>getTimezoneOffsetInMilliseconds L t - getTimezoneOffsetInMilliseconds L now2\<bar> \<le> 3600000"
  shows "urgent (formatDeadline L now1 now2 (Some s))"
proof -
  have lo: "10740001 \<le> t - now2" and hi: "t - now2 \<le> 10800000"
    using assms by simp_all
  from distance_minutes_bounds [OF lo hi _ assms(6)]
  have "119 \<le> distance_minutes L now2 t" and "distance_minutes L now2 t \<le> 240"
    by (simp_all add: round_div_def)
  then have "fst (distance_token L now2 t) = aboutXHours"
    by (intro distance_token_hours) simp_all
  moreover have "now2 < t" and "now1 \<le> t" using assms by simp_all
  ultimately show ?thesis
    using formatDeadline_future [OF assms(1,2), of now1 now2]
    by (simp split: prod.splits)
qed

lemma formatDeadline_ten_days:
  assumes "s \<noteq> []" and "parseISO L s = Some t" and "t - now1 = 864000000"
    and "now1 \<le> now2" and "now2 - now1 < 60000"
    and "\<bar>getTimezoneOffsetInMilliseconds L t - getTimezoneOffsetInMilliseconds L now2\<bar> \<le> 3600000"
  shows "formatDeadline L now1 now2 (Some s) = \<lparr>deadline_text = ''in 10 days'', urgent = True\<rparr>"
proof -
  have lo: "863940001 \<le> t - now2" and hi: "t - now2 \<le> 864000000"
    using assms by simp_all
  from distance_minutes_bounds [OF lo hi _ assms(6)]
  have m: "14339 \<le> distance_minutes L now2 t" "distance_minutes L now2 t \<le> 14460"
    by (simp_all add: round_div_def)
  then have tok: "distance_token L now2 t = (xDays, round_div (distance_minutes L now2 t) 1440)"
    by (intro distance_token_days) simp_all
  have "round_div 14339 1440 \<le> round_div (distance_minutes L now2 t) 1440"
    by (rule round_div_mono) (use m in simp_all)
  moreover have "round_div (distance_minutes L now2 t) 1440 \<le> round_div 14460 1440"
    by (rule round_div_mono) (use m in simp_all)
  ultimately have c: "round_div (distance_minutes L now2 t) 1440 = 10"
    by (simp add: round_div_def)
  have ten: "token_text xDays 10 = ''10 days''"
    by code_simp
  have "now2 < t" and "now1 \<le> t" using assms by simp_all
  then show ?thesis
    using formatDeadline_future [OF assms(1,2), of now1 now2] tok c ten
    by simp
qed

lemma example_parse_values:
  "parseISO example_datefns ''1970-01-01T00:00:00.000Z'' = Some 0"
  "parseISO example_datefns ''1970-01-01T00:30:00.000Z'' = Some 1800000"
  "parseISO example_datefns ''1970-01-01T03:00:00.000Z'' = Some 10800000"
  "parseISO example_datefns ''1970-01-11T00:00:00.000Z'' = Some 864000000"
  "parseISO example_datefns ''1970-03-02T00:00:00.000Z'' = Some 5184000000"
  by (simp_all add: example_datefns_def example_parse_def)

lemma example_zone: "getTimezoneOffsetInMilliseconds example_datefns t = 0"
  by (simp add: example_datefns_def)

lemma example_tokens:
  "distance_token example_datefns 0 1800000 = (xMinutes, 30)"
  "distance_token example_datefns 0 10800000 = (aboutXHours, 3)"
  "distance_token example_datefns 0 5184000000 = (xMonths, 2)"
  by code_simp+

lemma example_token_texts:
  "token_text xMinutes 30 = ''30 minutes''"
  "token_text aboutXHours 3 = ''about 3 hours''"
  "token_text xMonths 2 = ''2 months''"
  by code_simp+

text \<open>
  C3. The claim does not hold of the code for the deadline ten days ahead. The clock
  reads the epoch, the deadline is ten days later, and the result is \<open>in 10 days\<close> with
  \<open>urgent\<close> true: \<open>formatDistanceToNow\<close> gives every distance from a day to thirty days
  in days, never in weeks, and the word \<open>day\<close> makes the deadline urgent.
\<close>

theorem formatDeadline_ten_days_urgent:
  "parseISO example_datefns ''1970-01-11T00:00:00.000Z'' = Some (0 + 10 * 24 * 60 * 60 * 1000) \<and>
   formatDeadline example_datefns 0 0 (Some ''1970-01-11T00:00:00.000Z'')
     = \<lparr>deadline_text = ''in 10 days'', urgent = True\<rparr> \<and>
   urgent (formatDeadline example_datefns 0 0 (Some ''1970-01-11T00:00:00.000Z'')) \<noteq> False"
proof -
  have "formatDeadline example_datefns 0 0 (Some ''1970-01-11T00:00:00.000Z'')
        = \<lparr>deadline_text = ''in 10 days'', urgent = True\<rparr>"
    by (rule formatDeadline_ten_days)
      (simp_all add: example_parse_values example_zone)
  then show ?thesis by (simp add: example_parse_values)
qed

text \<open>
  C3, as amended. \<open>formatDeadline\<close> returns \<open>No deadline\<close>, not urgent, for \<open>null\<close>,
  and \<open>Expired\<close>, urgent, for a deadline before the clock reading, one hour before it
  in particular. For a deadline that is not past, the text is \<open>in\<close> followed by the
  relative duration, and \<open>urgent\<close> is true exactly when the duration is given in hours
  or in days; it is false when the duration is given in minutes, months or years, and
  no duration is given in weeks. Under two provisos, a deadline three hours ahead is
  urgent, and a deadline ten days ahead gives \<open>in 10 days\<close> and is urgent too. The
  provisos: the second reading of the clock comes no earlier than the first and less
  than a minute after it, and the zone offset at the deadline differs from the offset at
  the second reading by an hour at most. Without them the relative duration can fall
  into another unit or count, since \<open>formatDistance\<close> subtracts the change of the zone
  offset from the distance.
\<close>

theorem formatDeadline_urgency:
  "formatDeadline L now1 now2 None = \<lparr>deadline_text = ''No deadline'', urgent = False\<rparr> \<and>
   (s \<noteq> [] \<and> parseISO L s = Some t \<and> t < now1 \<longrightarrow>
      formatDeadline L now1 now2 (Some s) = \<lparr>deadline_text = ''Expired'', urgent = True\<rparr>) \<and>
   (s \<noteq> [] \<and> parseISO L s = Some t \<and> now1 - t = 60 * 60 * 1000 \<longrightarrow>
      formatDeadline L now1 now2 (Some s) = \<lparr>deadline_text = ''Expired'', urgent = True\<rparr>) \<and>
   (s \<noteq> [] \<and> parseISO L s = Some t \<and> now1 \<le> t \<longrightarrow>
      formatDeadline L now1 now2 (Some s) =
        (case (if now2 < t then distance_token L now2 t else distance_token L t now2) of
           (tok, count) \<Rightarrow>
             \<lparr>deadline_text = ''in '' @ token_text tok count,
              urgent = (tok = aboutXHours \<or> tok = xDays)\<rparr>)) \<and>
   (s \<noteq> [] \<and> parseISO L s = Some t \<and> now1 \<le> now2 \<and> now2 - now1 < 60000 \<and>
    \<bar>getTimezoneOffsetInMilliseconds L t - getTimezoneOffsetInMilliseconds L now2\<bar>
      \<le> 3600000 \<longrightarrow>
      (t - now1 = 3 * 60 * 60 * 1000 \<longrightarrow> urgent (formatDeadline L now1 now2 (Some s))) \<and>
      (t - now1 = 10 * 24 * 60 * 60 * 1000 \<longrightarrow>
         formatDeadline L now1 now2 (Some s)
           = \<lparr>deadline_text = ''in 10 days'', urgent = True\<rparr>))"
proof (intro conjI impI)
  show "formatDeadline L now1 now2 None = \<lparr>deadline_text = ''No deadline'', urgent = False\<rparr>"
    by (rule formatDeadline_absent)
next
  assume "s \<noteq> [] \<and> parseISO L s = Some t \<and> t < now1"
  then show "formatDeadline L now1 now2 (Some s)
             = \<lparr>deadline_text = ''Expired'', urgent = True\<rparr>"
    by (intro formatDeadline_past [of s L t]) simp_all
next
  assume "s \<noteq> [] \<and> parseISO L s = Some t \<and> now1 - t = 60 * 60 * 1000"
  then show "formatDeadline L now1 now2 (Some s)
             = \<lparr>deadline_text = ''Expired'', urgent = True\<rparr>"
    by (intro formatDeadline_past [of s L t]) simp_all
next
  assume "s \<noteq> [] \<and> parseISO L s = Some t \<and> now1 \<le> t"
  then show "formatDeadline L now1 now2 (Some s) =
        (case (if now2 < t then distance_token L now2 t else distance_token L t now2) of
           (tok, count) \<Rightarrow>
             \<lparr>deadline_text = ''in '' @ token_text tok count,
              urgent = (tok = aboutXHours \<or> tok = xDays)\<rparr>)"
    by (intro formatDeadline_future) simp_all
next
  assume "s \<noteq> [] \<and> parseISO L s = Some t \<and> now1 \<le> now2 \<and> now2 - now1 < 60000 \<and>
    \<bar>getTimezoneOffsetInMilliseconds L t - getTimezoneOffsetInMilliseconds L now2\<bar>
      \<le> 3600000"
    and "t - now1 = 3 * 60 * 60 * 1000"
  then show "urgent (formatDeadline L now1 now2 (Some s))"
    by (intro formatDeadline_three_hours [of s L t]) simp_all
next
  assume "s \<noteq> [] \<and> parseISO L s = Some t \<and> now1 \<le> now2 \<and> now2 - now1 < 60000 \<and>
    \<bar>getTimezoneOffsetInMilliseconds L t - getTimezoneOffsetInMilliseconds L now2\<bar>
      \<le> 3600000"
    and "t - now1 = 10 * 24 * 60 * 60 * 1000"
  then show "formatDeadline L now1 now2 (Some s)
             = \<lparr>deadline_text = ''in 10 days'', urgent = True\<rparr>"
    by (intro formatDeadline_ten_days [of s L t]) simp_all
qed

theorem formatDeadline_urgency_witness:
  "formatDeadline example_datefns 3600000 3600000 (Some ''1970-01-01T00:00:00.000Z'')
     = \<lparr>deadline_text = ''Expired'', urgent = True\<rparr> \<and>
   formatDeadline example_datefns 0 0 (Some ''1970-01-01T00:30:00.000Z'')
     = \<lparr>deadline_text = ''in 30 minutes'', urgent = False\<rparr> \<and>
   formatDeadline example_datefns 0 0 (Some ''1970-01-01T03:00:00.000Z'')
     = \<lparr>deadline_text = ''in about 3 hours'', urgent = True\<rparr> \<and>
   urgent (formatDeadline example_datefns 0 59999 (Some ''1970-01-01T03:00:00.000Z'')) \<and>
   formatDeadline example_datefns 0 0 (Some ''1970-01-11T00:00:00.000Z'')
     = \<lparr>deadline_text = ''in 10 days'', urgent = True\<rparr> \<and>
   formatDeadline example_datefns 0 0 (Some ''1970-03-02T00:00:00.000Z'')
     = \<lparr>deadline_text = ''in 2 months'', urgent = False\<rparr>"
proof -
  have past:
    "formatDeadline example_datefns 3600000 3600000 (Some ''1970-01-01T00:00:00.000Z'')
       = \<lparr>deadline_text = ''Expired'', urgent = True\<rparr>"
    using formatDeadline_urgency
        [of example_datefns 3600000 3600000 "''1970-01-01T00:00:00.000Z''" 0,
          THEN conjunct2, THEN conjunct2, THEN conjunct1]
    by (simp add: example_parse_values)
  have minutes:
    "formatDeadline example_datefns 0 0 (Some ''1970-01-01T00:30:00.000Z'')
       = \<lparr>deadline_text = ''in 30 minutes'', urgent = False\<rparr>"
    using formatDeadline_urgency
        [of example_datefns 0 0 "''1970-01-01T00:30:00.000Z''" 1800000,
          THEN conjunct2, THEN conjunct2, THEN conjunct2, THEN conjunct1]
    by (simp add: example_parse_values example_tokens example_token_texts)
  have hours:
    "formatDeadline example_datefns 0 0 (Some ''1970-01-01T03:00:00.000Z'')
       = \<lparr>deadline_text = ''in about 3 hours'', urgent = True\<rparr>"
    using formatDeadline_urgency
        [of example_datefns 0 0 "''1970-01-01T03:00:00.000Z''" 10800000,
          THEN conjunct2, THEN conjunct2, THEN conjunct2, THEN conjunct1]
    by (simp add: example_parse_values example_tokens example_token_texts)
  have late:
    "urgent (formatDeadline example_datefns 0 59999 (Some ''1970-01-01T03:00:00.000Z''))"
    using formatDeadline_urgency
        [of example_datefns 0 59999 "''1970-01-01T03:00:00.000Z''" 10800000,
          THEN conjunct2, THEN conjunct2, THEN conjunct2, THEN conjunct2]
    by (simp add: example_parse_values example_zone)
  have days:
    "formatDeadline example_datefns 0 0 (Some ''1970-01-11T00:00:00.000Z'')
       = \<lparr>deadline_text = ''in 10 days'', urgent = True\<rparr>"
    using formatDeadline_urgency
        [of example_datefns 0 0 "''1970-01-11T00:00:00.000Z''" 864000000,
          THEN conjunct2, THEN conjunct2, THEN conjunct2, THEN conjunct2]
    by (simp add: example_parse_values example_zone)
  have months:
    "formatDeadline example_datefns 0 0 (Some ''1970-03-02T00:00:00.000Z'')
       = \<lparr>deadline_text = ''in 2 months'', urgent = False\<rparr>"
    using formatDeadline_urgency
        [of example_datefns 0 0 "''1970-03-02T00:00:00.000Z''" 5184000000,
          THEN conjunct2, THEN conjunct2, THEN conjunct2, THEN conjunct1]
    by (simp add: example_parse_values example_tokens example_token_texts)
  from past minutes hours late days months show ?thesis
    by (intro conjI)
qed

end
